theory Spec2Isabelle
  imports Complex_Main
begin

section \<open>Python values\<close>

text \<open>
  The request body after \<^verbatim>\<open>request.get_json()\<close>: the Python value a JSON document parses
  to. A JSON object is a \<^verbatim>\<open>dict\<close> with string keys, kept as the list of its items and
  read with \<open>map_of\<close>; a parsed dict holds every key once.
\<close>

datatype pyval =
    PNone
  | PBool bool
  | PInt int
  | PFloat real
  | PStr string
  | PList "pyval list"
  | PDict "(string \<times> pyval) list"

text \<open>\<^verbatim>\<open>not data\<close>: Python's truth value of a parsed JSON value.\<close>

fun truthy :: "pyval \<Rightarrow> bool" where
  "truthy PNone = False"
| "truthy (PBool b) = b"
| "truthy (PInt i) = (i \<noteq> 0)"
| "truthy (PFloat x) = (x \<noteq> 0)"
| "truthy (PStr s) = (s \<noteq> [])"
| "truthy (PList xs) = (xs \<noteq> [])"
| "truthy (PDict kvs) = (kvs \<noteq> [])"

text \<open>
  The values that pass \<^verbatim>\<open>isinstance(x, int)\<close>. In Python \<^verbatim>\<open>bool\<close> is a subclass of
  \<^verbatim>\<open>int\<close>, so \<^verbatim>\<open>True\<close> and \<^verbatim>\<open>False\<close> pass the test and compare as 1 and 0.
\<close>

datatype pyint = IntVal int | BoolVal bool

fun isinstance_int :: "pyval \<Rightarrow> pyint option" where
  "isinstance_int (PInt i) = Some (IntVal i)"
| "isinstance_int (PBool b) = Some (BoolVal b)"
| "isinstance_int v = None"

fun int_of :: "pyint \<Rightarrow> int" where
  "int_of (IntVal i) = i"
| "int_of (BoolVal b) = (if b then 1 else 0)"

fun digits :: "nat \<Rightarrow> string" where
  "digits n =
     (if n < 10 then [char_of (48 + n)]
      else digits (n div 10) @ [char_of (48 + n mod 10)])"

definition str_int :: "int \<Rightarrow> string" where
  "str_int i = (if i < 0 then CHR ''-'' # digits (nat (- i)) else digits (nat i))"

text \<open>\<^verbatim>\<open>str(timeout)\<close>, as the f-string of the timeout message formats it.\<close>

fun py_str :: "pyint \<Rightarrow> string" where
  "py_str (IntVal i) = str_int i"
| "py_str (BoolVal b) = (if b then ''True'' else ''False'')"

text \<open>\<^verbatim>\<open>k in s\<close> on two strings: \<open>k\<close> occurs in \<open>s\<close> as a contiguous run.\<close>

fun str_contains :: "string \<Rightarrow> string \<Rightarrow> bool" where
  "str_contains k [] = (k = [])"
| "str_contains k (c # cs) =
     (if take (length k) (c # cs) = k then True else str_contains k cs)"

section \<open>Exceptions raised by submitted code\<close>

datatype exn_class = SyntaxErrorClass | ExceptionClass | BaseExceptionClass

text \<open>
  An exception as the engine's own handler (the \<^verbatim>\<open>except Exception as e\<close> that closes
  \<^verbatim>\<open>execute_python_code\<close>) reports it: \<^verbatim>\<open>type(e).__name__\<close>, \<^verbatim>\<open>str(e)\<close> and the text of
  its stack trace. It stands for an instance of \<^verbatim>\<open>Exception\<close> whose \<^verbatim>\<open>str\<close> returns; an
  exception that would leave the engine through that handler is outside the model.
\<close>

record raised =
  raised_name :: string
  raised_str :: string
  raised_trace :: string

text \<open>
  What the engine reads of an exception object \<open>e\<close> of the submitted code: where its
  class stands among the built-in classes the code tests for (\<^verbatim>\<open>SyntaxError\<close> is a
  subclass of \<^verbatim>\<open>Exception\<close>, which is a subclass of \<^verbatim>\<open>BaseException\<close>),
  \<^verbatim>\<open>type(e).__name__\<close>, \<^verbatim>\<open>str(e)\<close>, \<^verbatim>\<open>bool(e)\<close> (true unless the class defines
  \<^verbatim>\<open>__bool__\<close> or \<^verbatim>\<open>__len__\<close>), and the text of its stack trace at the raise site.
  \<^verbatim>\<open>str(e)\<close> and \<^verbatim>\<open>bool(e)\<close> run methods that the class of \<open>e\<close> may define, so each of
  them either returns its value (\<open>Inr\<close>) or raises (\<open>Inl\<close>).
\<close>

record pyexn =
  exn_class :: exn_class
  exn_name :: string
  exn_str :: "raised + string"
  exn_bool :: "raised + bool"
  exn_trace :: string

definition isinstance_SyntaxError :: "pyexn \<Rightarrow> bool" where
  "isinstance_SyntaxError e = (exn_class e = SyntaxErrorClass)"

definition isinstance_Exception :: "pyexn \<Rightarrow> bool" where
  "isinstance_Exception e = (exn_class e \<noteq> BaseExceptionClass)"

text \<open>
  \<^verbatim>\<open>traceback.format_exc()\<close> formats the exception that the calling thread is handling
  (\<^verbatim>\<open>sys.exc_info()\<close> is per thread and per handler). Called where the caller handles
  no exception, it returns the text \<^verbatim>\<open>NoneType: None\<close> and a newline.
\<close>

fun format_exc :: "raised option \<Rightarrow> string" where
  "format_exc None = ''NoneType: None'' @ [CHR 0x0A]"
| "format_exc (Some r) = raised_trace r"

section \<open>Result model\<close>

text \<open>The \<^verbatim>\<open>error\<close> entry: \<open>None\<close> is JSON null, else a string or the details dict.\<close>

datatype error_value =
    ErrorText string
  | ErrorDetails (err_type: string) (err_message: string) (err_traceback: string)

record result =
  success :: bool
  output_text :: string
  error :: "error_value option"
  execution_time :: real

section \<open>Execution engine\<close>

text \<open>The dict \<^verbatim>\<open>execution_state\<close> shared by the engine and its worker thread.\<close>

record execution_state =
  completed :: bool
  exception :: "pyexn option"
  state_output :: string
  error_output :: string

text \<open>
  How \<^verbatim>\<open>exec(code, ...)\<close> (with the imports before it) left the body of the worker's
  \<^verbatim>\<open>try\<close>: it returned, or it raised.
\<close>

datatype exec_end = Returned | Raised pyexn

text \<open>
  A capture buffer (\<^verbatim>\<open>io.StringIO\<close>) when the worker reads it: it holds the text
  written into it, or it has been closed. The redirection replaces the streams of the
  whole process and the submitted code has them in hand, so the code can close a
  buffer (\<^verbatim>\<open>sys.stdout.close()\<close>), and the text in a buffer is whatever was written to
  the stream while the buffer stood in for it.
\<close>

datatype buffer = Contents string | Closed

text \<open>The \<^verbatim>\<open>ValueError\<close> that \<^verbatim>\<open>getvalue()\<close> raises on a closed buffer.\<close>

definition closed_file_error :: pyexn where
  "closed_file_error =
     \<lparr>exn_class = ExceptionClass, exn_name = ''ValueError'',
      exn_str = Inr ''I/O operation on closed file'', exn_bool = Inr True,
      exn_trace = ''Traceback (most recent call last):'' @ [CHR 0x0A]
        @ ''ValueError: I/O operation on closed file'' @ [CHR 0x0A]\<rparr>"

fun getvalue :: "buffer \<Rightarrow> pyexn + string" where
  "getvalue (Contents s) = Inr s"
| "getvalue Closed = Inl closed_file_error"

text \<open>
  The handler \<^verbatim>\<open>except Exception as e\<close> of the worker: it stores the exception, reads
  the two buffers and sets \<^verbatim>\<open>completed\<close>. A read that raises inside the handler ends
  the thread there, with what has been stored so far and \<^verbatim>\<open>completed\<close> still false.
\<close>

definition execute_code_except ::
  "pyexn \<Rightarrow> buffer \<Rightarrow> buffer \<Rightarrow> execution_state \<Rightarrow> execution_state" where
  "execute_code_except e out err st =
     (let st1 = st\<lparr>exception := Some e\<rparr> in
      case getvalue out of
        Inl e1 \<Rightarrow> st1
      | Inr text_out \<Rightarrow>
          (let st2 = st1\<lparr>state_output := text_out\<rparr> in
           case getvalue err of
             Inl e2 \<Rightarrow> st2
           | Inr text_err \<Rightarrow> st2\<lparr>error_output := text_err, completed := True\<rparr>))"

text \<open>
  The worker thread \<^verbatim>\<open>execute_code\<close> nested in \<^verbatim>\<open>execute_python_code\<close>, given how
  \<^verbatim>\<open>exec\<close> ended and the two capture buffers. After a return, the two reads of the
  buffers are still inside the \<^verbatim>\<open>try\<close>: a read that raises goes to the handler.
  \<^verbatim>\<open>except Exception\<close> catches instances of \<^verbatim>\<open>Exception\<close> only: any other exception
  leaves the thread with the state untouched.
\<close>

definition execute_code_worker ::
  "exec_end \<Rightarrow> buffer \<Rightarrow> buffer \<Rightarrow> execution_state \<Rightarrow> execution_state" where
  "execute_code_worker ending out err st =
     (case ending of
        Returned \<Rightarrow>
          (case getvalue out of
             Inl e1 \<Rightarrow> execute_code_except e1 out err st
           | Inr text_out \<Rightarrow>
               (let st1 = st\<lparr>state_output := text_out\<rparr> in
                case getvalue err of
                  Inl e2 \<Rightarrow> execute_code_except e2 out err st1
                | Inr text_err \<Rightarrow> st1\<lparr>error_output := text_err, completed := True\<rparr>))
      | Raised e \<Rightarrow>
          if isinstance_Exception e then execute_code_except e out err st else st)"

text \<open>
  What the engine observes of the thread once \<^verbatim>\<open>thread.join(timeout=timeout)\<close> is over:
  creating or starting the thread raised in the engine itself; the thread is still
  alive; or \<^verbatim>\<open>exec\<close> has ended, in the way and with the buffers given, and the thread
  after it.
\<close>

datatype thread_obs =
    StartFailed raised
  | Alive
  | Ended exec_end buffer buffer

text \<open>
  The world outside the engine. The \<open>n\<close>-th engine call of a request (counted from 0)
  observes \<open>thread_of n code timeout\<close>, and reads \<^verbatim>\<open>time.time()\<close> as \<open>time_at_start n\<close>
  on entry and \<open>time_at_end n\<close> before returning. Clock readings are real numbers; the
  rounding of Python's floats is not modelled.
\<close>

record env =
  thread_of :: "nat \<Rightarrow> string \<Rightarrow> pyint \<Rightarrow> thread_obs"
  time_at_start :: "nat \<Rightarrow> real"
  time_at_end :: "nat \<Rightarrow> real"

text \<open>An engine invocation, as logged: the code and the timeout it was called with.\<close>

type_synonym call = "string \<times> pyint"

definition initial_result :: result where
  "initial_result = \<lparr>success = False, output_text = [], error = None, execution_time = 0\<rparr>"

definition initial_state :: execution_state where
  "initial_state = \<lparr>completed = False, exception = None, state_output = [], error_output = []\<rparr>"

text \<open>
  The body of the \<^verbatim>\<open>try\<close> of \<^verbatim>\<open>execute_python_code\<close>, from the start of the thread to
  the last branch: it gives the result as assigned so far (\<open>Inr\<close>), or raises into the
  engine's own handler (\<open>Inl\<close>). The test \<^verbatim>\<open>if execution_state["exception"]\<close> is
  \<^verbatim>\<open>bool(e)\<close> of the exception object, and \<^verbatim>\<open>traceback.format_exc()\<close> in the completion
  branch is called by the waiting thread, outside any handler. When \<^verbatim>\<open>bool(e)\<close> or
  \<^verbatim>\<open>str(e)\<close> raises, nothing has been assigned to \<^verbatim>\<open>result\<close> yet.
\<close>

definition engine_try :: "thread_obs \<Rightarrow> pyint \<Rightarrow> raised + result" where
  "engine_try obs timeout =
     (case obs of
        StartFailed r \<Rightarrow> Inl r
      | Alive \<Rightarrow>
          Inr (initial_result\<lparr>error :=
                 Some (ErrorText (''Code execution timed out after '' @ py_str timeout
                                  @ '' seconds''))\<rparr>)
      | Ended ending out err \<Rightarrow>
          (let st = execute_code_worker ending out err initial_state in
           if completed st then
             (case (case exception st of
                      None \<Rightarrow> Inr None
                    | Some e \<Rightarrow>
                        (case exn_bool e of
                           Inl r \<Rightarrow> Inl r
                         | Inr b \<Rightarrow> Inr (if b then Some e else None))) of
                Inl r \<Rightarrow> Inl r
              | Inr (Some e) \<Rightarrow>
                  (if isinstance_SyntaxError e
                   then
                     (case exn_str e of
                        Inl r \<Rightarrow> Inl r
                      | Inr msg \<Rightarrow>
                          Inr (initial_result
                                 \<lparr>error := Some (ErrorText (''Syntax Error: '' @ msg)),
                                  output_text := state_output st\<rparr>))
                   else
                     (case exn_str e of
                        Inl r \<Rightarrow> Inl r
                      | Inr msg \<Rightarrow>
                          Inr (initial_result
                                 \<lparr>error := Some (ErrorDetails (exn_name e) msg (format_exc None)),
                                  output_text := state_output st\<rparr>)))
              | Inr None \<Rightarrow>
                  Inr ((if error_output st \<noteq> []
                        then initial_result\<lparr>error := Some (ErrorText (error_output st))\<rparr>
                        else initial_result\<lparr>success := True\<rparr>)
                       \<lparr>output_text := state_output st\<rparr>))
           else
             Inr (initial_result\<lparr>error :=
                    Some (ErrorText ''Execution completed with unknown state'')\<rparr>)))"

text \<open>
  \<^verbatim>\<open>execute_python_code(code, timeout)\<close>. The log of the engine calls made so far is
  passed in and returned with this call added. An exception raised in the \<^verbatim>\<open>try\<close> is
  reported by the handler with its type name, its message and \<^verbatim>\<open>format_exc()\<close>, here
  inside the handler.
\<close>

definition execute_python_code ::
  "env \<Rightarrow> string \<Rightarrow> pyint \<Rightarrow> call list \<Rightarrow> result \<times> call list" where
  "execute_python_code w code timeout calls =
     (let n = length calls;
          start_time = time_at_start w n;
          result =
            (case engine_try (thread_of w n code timeout) timeout of
               Inr r \<Rightarrow> r
             | Inl e \<Rightarrow>
                 initial_result\<lparr>error :=
                   Some (ErrorDetails (raised_name e) (raised_str e) (format_exc (Some e)))\<rparr>)
      in (result\<lparr>execution_time := time_at_end w n - start_time\<rparr>, calls @ [(code, timeout)]))"

section \<open>Request adapter\<close>

text \<open>Exceptions of the interpreter that the handlers catch; their message text
  \<^verbatim>\<open>str(e)\<close> is not modelled.\<close>

datatype fault = TypeError | AttributeError | KeyError

text \<open>
  The JSON bodies the adapter sends: \<open>ErrorBody msg\<close> is
  \<^verbatim>\<open>{"success": False, "error": msg}\<close>, \<open>FaultBody prefix e\<close> the same with the message
  \<^verbatim>\<open>prefix + str(e)\<close>, \<open>ResultBody r\<close> a result as the whole body, and \<open>DataBody rs\<close>
  is \<^verbatim>\<open>{"data": [[row_index, result], ...]}\<close>.
\<close>

datatype body =
    ErrorBody string
  | FaultBody string fault
  | ResultBody result
  | DataBody "(pyval \<times> result) list"

datatype response = Response (body_of: body) (status: nat)

definition quoted :: "string \<Rightarrow> string" where
  "quoted s = CHR 0x27 # s @ [CHR 0x27]"

text \<open>The result built for a row whose code is not a string.\<close>

definition row_error_result :: result where
  "row_error_result =
     \<lparr>success = False, output_text = [], error = Some (ErrorText ''Code must be a string''),
      execution_time = 0\<rparr>"

definition row_shape_error :: response where
  "row_shape_error =
     Response (ErrorBody ''Each row must be an array with at least [row_index, code]'') 400"

text \<open>
  The loop \<^verbatim>\<open>for row in rows\<close> of \<^verbatim>\<open>handle_snowflake_format\<close>, with the list \<open>results\<close>
  built so far and the log of engine calls. The shape of a row is tested when the loop
  reaches it.
\<close>

fun snowflake_rows ::
  "env \<Rightarrow> pyint \<Rightarrow> pyval list \<Rightarrow> (pyval \<times> result) list \<Rightarrow> call list
   \<Rightarrow> response \<times> call list" where
  "snowflake_rows w timeout [] results calls = (Response (DataBody results) 200, calls)"
| "snowflake_rows w timeout (row # rows) results calls =
     (case row of
        PList xs \<Rightarrow>
          if length xs < 2 then (row_shape_error, calls)
          else
            (let row_index = xs ! 0; code = xs ! 1 in
             case code of
               PStr s \<Rightarrow>
                 (let (result, calls') = execute_python_code w s timeout calls in
                  snowflake_rows w timeout rows (results @ [(row_index, result)]) calls')
             | _ \<Rightarrow>
                 snowflake_rows w timeout rows (results @ [(row_index, row_error_result)]) calls)
      | _ \<Rightarrow> (row_shape_error, calls))"

text \<open>
  \<^verbatim>\<open>handle_snowflake_format(data)\<close>. On a value that is not a dict, \<^verbatim>\<open>data.get\<close> raises
  \<^verbatim>\<open>AttributeError\<close>, which the handler's own \<^verbatim>\<open>except\<close> turns into a 500.
\<close>

definition handle_snowflake_format ::
  "env \<Rightarrow> pyval \<Rightarrow> call list \<Rightarrow> response \<times> call list" where
  "handle_snowflake_format w data calls =
     (case data of
        PDict kvs \<Rightarrow>
          (case (case map_of kvs ''data'' of None \<Rightarrow> PList [] | Some v \<Rightarrow> v) of
             PList rows \<Rightarrow> snowflake_rows w (IntVal 600) rows [] calls
           | _ \<Rightarrow>
               (Response (ErrorBody (quoted ''data'' @ '' must be an array'')) 400, calls))
      | _ \<Rightarrow>
          (Response (FaultBody ''Error processing Snowflake format: '' AttributeError) 500,
           calls))"

text \<open>
  \<^verbatim>\<open>handle_legacy_format(data)\<close>. \<^verbatim>\<open>data['code']\<close> raises \<^verbatim>\<open>KeyError\<close> on a dict
  without the key and \<^verbatim>\<open>TypeError\<close> on a value that is not a dict.
\<close>

definition handle_legacy_format ::
  "env \<Rightarrow> pyval \<Rightarrow> call list \<Rightarrow> response \<times> call list" where
  "handle_legacy_format w data calls =
     (case data of
        PDict kvs \<Rightarrow>
          (case map_of kvs ''code'' of
             None \<Rightarrow>
               (Response (FaultBody ''Error processing legacy format: '' KeyError) 500, calls)
           | Some code \<Rightarrow>
               (let timeout = (case map_of kvs ''timeout'' of None \<Rightarrow> PInt 30 | Some t \<Rightarrow> t) in
                case code of
                  PStr s \<Rightarrow>
                    (case isinstance_int timeout of
                       None \<Rightarrow>
                         (Response (ErrorBody (quoted ''timeout''
                            @ '' must be an integer between 1 and 300 seconds'')) 400, calls)
                     | Some t \<Rightarrow>
                         if int_of t \<le> 0 \<or> int_of t > 300
                         then (Response (ErrorBody (quoted ''timeout''
                                 @ '' must be an integer between 1 and 300 seconds'')) 400, calls)
                         else
                           (let (result, calls') = execute_python_code w s t calls in
                            (Response (ResultBody result) 200, calls')))
                | _ \<Rightarrow>
                    (Response (ErrorBody (quoted ''code'' @ '' parameter must be a string'')) 400,
                     calls)))
      | _ \<Rightarrow>
          (Response (FaultBody ''Error processing legacy format: '' TypeError) 500, calls))"

text \<open>
  \<^verbatim>\<open>k in data\<close> for a string \<open>k\<close>: a key test on a dict, an element test on a list, a
  substring test on a string, and a \<^verbatim>\<open>TypeError\<close> on any other parsed value.
\<close>

fun py_in :: "string \<Rightarrow> pyval \<Rightarrow> fault + bool" where
  "py_in k (PDict kvs) = Inr (k \<in> set (map fst kvs))"
| "py_in k (PList xs) = Inr (PStr k \<in> set xs)"
| "py_in k (PStr s) = Inr (str_contains k s)"
| "py_in k v = Inl TypeError"

text \<open>
  The route \<^verbatim>\<open>/execute\<close>: the function \<^verbatim>\<open>execute_code()\<close> of the module, on the parsed
  body. A request starts with an empty log of engine calls.
\<close>

definition execute_code :: "env \<Rightarrow> pyval \<Rightarrow> call list \<Rightarrow> response \<times> call list" where
  "execute_code w data calls =
     (if truthy data then
        (case py_in ''data'' data of
           Inl e \<Rightarrow> (Response (FaultBody ''Internal server error: '' e) 500, calls)
         | Inr has_data \<Rightarrow>
             if has_data then handle_snowflake_format w data calls
             else
               (case py_in ''code'' data of
                  Inl e \<Rightarrow> (Response (FaultBody ''Internal server error: '' e) 500, calls)
                | Inr has_code \<Rightarrow>
                    if has_code then handle_legacy_format w data calls
                    else
                      (Response (ErrorBody (''Invalid request format. Expected ''
                         @ quoted ''data'' @ '' array (Snowflake format) or ''
                         @ quoted ''code'' @ '' string (legacy format)'')) 400, calls)))
      else (Response (ErrorBody ''Missing request body'') 400, calls))"

section \<open>Notions used to state the properties\<close>

text \<open>A batch element passes the shape check: it is a list of at least two positions.\<close>

fun well_formed_row :: "pyval \<Rightarrow> bool" where
  "well_formed_row (PList xs) = (2 \<le> length xs)"
| "well_formed_row v = False"

text \<open>The index position of a batch element (of a list with a first position).\<close>

fun row_index :: "pyval \<Rightarrow> pyval" where
  "row_index (PList (i # xs)) = i"
| "row_index v = v"

text \<open>The code of a batch element, when its code position holds a string.\<close>

fun row_code :: "pyval \<Rightarrow> string option" where
  "row_code (PList (i # PStr s # xs)) = Some s"
| "row_code v = None"

text \<open>The engine calls that a run over the given rows makes, with timeout \<open>t\<close>: one for
  each row whose code is a string, in the order of the rows.\<close>

definition engine_calls :: "pyint \<Rightarrow> pyval list \<Rightarrow> call list" where
  "engine_calls t rows = map (\<lambda>s. (s, t)) (List.map_filter row_code rows)"

text \<open>The engine's result alone, for the call made after the calls of the log.\<close>

definition engine_result :: "env \<Rightarrow> string \<Rightarrow> pyint \<Rightarrow> call list \<Rightarrow> result" where
  "engine_result w code t calls = fst (execute_python_code w code t calls)"

text \<open>The entry of the response for one batch element, given the log before it.\<close>

definition row_entry :: "env \<Rightarrow> pyint \<Rightarrow> call list \<Rightarrow> pyval \<Rightarrow> pyval \<times> result" where
  "row_entry w t calls row =
     (case row_code row of
        None \<Rightarrow> (row_index row, row_error_result)
      | Some s \<Rightarrow> (row_index row, engine_result w s t calls))"


text \<open>The response to a single-code request whose timeout is refused.\<close>

definition timeout_error :: response where
  "timeout_error =
     Response (ErrorBody (quoted ''timeout''
       @ '' must be an integer between 1 and 300 seconds'')) 400"

section \<open>Sample inputs\<close>

definition newline :: string where
  "newline = [CHR 0x0A]"

definition zero_division :: pyexn where
  "zero_division =
     \<lparr>exn_class = ExceptionClass, exn_name = ''ZeroDivisionError'',
      exn_str = Inr ''division by zero'', exn_bool = Inr True,
      exn_trace = ''Traceback (most recent call last):'' @ newline
        @ ''  File <string>, line 1, in <module>'' @ newline
        @ ''ZeroDivisionError: division by zero'' @ newline\<rparr>"

definition syntax_error :: pyexn where
  "syntax_error =
     \<lparr>exn_class = SyntaxErrorClass, exn_name = ''SyntaxError'',
      exn_str = Inr ''invalid syntax (<string>, line 1)'', exn_bool = Inr True,
      exn_trace = ''Traceback (most recent call last):'' @ newline
        @ ''SyntaxError: invalid syntax'' @ newline\<rparr>"

definition system_exit :: pyexn where
  "system_exit =
     \<lparr>exn_class = BaseExceptionClass, exn_name = ''SystemExit'', exn_str = Inr [],
      exn_bool = Inr True,
      exn_trace = ''Traceback (most recent call last):'' @ newline
        @ ''SystemExit'' @ newline\<rparr>"

text \<open>An exception of a class of the submitted code that defines \<^verbatim>\<open>__bool__\<close> as false.\<close>

definition falsy_error :: pyexn where
  "falsy_error =
     \<lparr>exn_class = ExceptionClass, exn_name = ''1'', exn_str = Inr ''1'',
      exn_bool = Inr False,
      exn_trace = ''Traceback (most recent call last):'' @ newline
        @ ''1: 1'' @ newline\<rparr>"

definition code_raise_falsy :: string where
  "code_raise_falsy =
     ''raise type(str(1), (Exception,), dict(__bool__=lambda s: False))(1)''"

text \<open>A program that writes to the standard-error stream and closes the standard-output
  stream before it returns.\<close>

definition code_close_stdout :: string where
  "code_close_stdout = ''import sys; print(2, file=sys.stderr); sys.stdout.close()''"

text \<open>A world in which each sample program behaves as Python runs it; every engine call
  takes a quarter of a second.\<close>

definition sample_env :: env where
  "sample_env =
     \<lparr>thread_of = (\<lambda>n code timeout.
        if code = ''print(1)'' then Ended Returned (Contents (''1'' @ newline)) (Contents [])
        else if code = ''print(2)''
          then Ended Returned (Contents (''2'' @ newline)) (Contents [])
        else if code = ''print(1/0)''
          then Ended (Raised zero_division) (Contents []) (Contents [])
        else if code = ''1 +'' then Ended (Raised syntax_error) (Contents []) (Contents [])
        else if code = ''import sys; sys.exit()''
          then Ended (Raised system_exit) (Contents []) (Contents [])
        else if code = ''import sys; print(2, file=sys.stderr)''
          then Ended Returned (Contents []) (Contents (''2'' @ newline))
        else if code = code_close_stdout
          then Ended Returned Closed (Contents (''2'' @ newline))
        else if code = code_raise_falsy
          then Ended (Raised falsy_error) (Contents []) (Contents [])
        else if code = ''while True: pass'' then Alive
        else Ended Returned (Contents []) (Contents [])),
      time_at_start = (\<lambda>n. real n),
      time_at_end = (\<lambda>n. real n + 1 / 4)\<rparr>"


text \<open>\<^verbatim>\<open>{"data": [[7, "print(1)"], [7, 42], ["x", "print(2)", 5]], "timeout": 5}\<close>\<close>

definition batch_mixed :: pyval where
  "batch_mixed =
     PDict [(''data'', PList [PList [PInt 7, PStr ''print(1)''],
                              PList [PInt 7, PInt 42],
                              PList [PStr ''x'', PStr ''print(2)'', PInt 5]]),
            (''timeout'', PInt 5)]"

text \<open>\<^verbatim>\<open>{"code": "print(1)", "timeout": true}\<close>\<close>

definition single_timeout_true :: pyval where
  "single_timeout_true = PDict [(''code'', PStr ''print(1)''), (''timeout'', PBool True)]"

text \<open>\<^verbatim>\<open>{"data": [[0, "print(1)"]], "code": "print(2)"}\<close>\<close>

definition both_fields :: pyval where
  "both_fields =
     PDict [(''data'', PList [PList [PInt 0, PStr ''print(1)'']]), (''code'', PStr ''print(2)'')]"

section \<open>Properties of the engine\<close>

lemmas engine_defs = execute_python_code_def engine_try_def engine_result_def
  execute_code_worker_def execute_code_except_def initial_result_def initial_state_def
  isinstance_Exception_def isinstance_SyntaxError_def closed_file_error_def


lemma engine_logs_call: "snd (execute_python_code w code t calls) = calls @ [(code, t)]"
  by (simp add: execute_python_code_def Let_def)

text \<open>The worker sets \<^verbatim>\<open>completed\<close> only after it has read both buffers.\<close>

lemma worker_completed_reads:
  "completed (execute_code_worker ending out err initial_state) \<Longrightarrow>
   \<exists>text_out text_err. out = Contents text_out \<and> err = Contents text_err"
  unfolding engine_defs Let_def
  by (cases out; cases err; cases ending) (auto split: if_splits)





text \<open>
  What the engine returns when the code raised an exception that the worker caught,
  both buffers could be read, and \<^verbatim>\<open>bool(e)\<close> is true and \<^verbatim>\<open>str(e)\<close> returns: for a
  syntax error, the string \<^verbatim>\<open>Syntax Error: \<close> followed by \<^verbatim>\<open>str(e)\<close>; for any other
  exception, the details with the type name, the message and, as traceback, the text
  that \<^verbatim>\<open>format_exc\<close> gives outside a handler.
\<close>

lemma engine_syntax_error:
  "thread_of w (length calls) code t = Ended (Raised e) (Contents out) (Contents err) \<Longrightarrow>
   isinstance_SyntaxError e \<Longrightarrow> exn_bool e = Inr True \<Longrightarrow> exn_str e = Inr msg \<Longrightarrow>
   engine_result w code t calls =
     \<lparr>success = False, output_text = out,
      error = Some (ErrorText (''Syntax Error: '' @ msg)),
      execution_time = time_at_end w (length calls) - time_at_start w (length calls)\<rparr>"
  by (simp add: engine_defs Let_def)

lemma engine_exception_details:
  "thread_of w (length calls) code t = Ended (Raised e) (Contents out) (Contents err) \<Longrightarrow>
   exn_class e = ExceptionClass \<Longrightarrow> exn_bool e = Inr True \<Longrightarrow> exn_str e = Inr msg \<Longrightarrow>
   engine_result w code t calls =
     \<lparr>success = False, output_text = out,
      error = Some (ErrorDetails (exn_name e) msg (''NoneType: None'' @ newline)),
      execution_time = time_at_end w (length calls) - time_at_start w (length calls)\<rparr>"
  by (simp add: engine_defs Let_def newline_def)

text \<open>
  When \<^verbatim>\<open>bool(e)\<close> raises, or \<^verbatim>\<open>bool(e)\<close> is true and \<^verbatim>\<open>str(e)\<close> raises, the engine's own
  handler reports the exception raised there, with its own stack trace and an empty
  output.
\<close>

lemma engine_bool_raises:
  "thread_of w (length calls) code t = Ended (Raised e) (Contents out) (Contents err) \<Longrightarrow>
   isinstance_Exception e \<Longrightarrow> exn_bool e = Inl r \<Longrightarrow>
   engine_result w code t calls =
     \<lparr>success = False, output_text = [],
      error = Some (ErrorDetails (raised_name r) (raised_str r) (raised_trace r)),
      execution_time = time_at_end w (length calls) - time_at_start w (length calls)\<rparr>"
  by (simp add: engine_defs Let_def)

lemma engine_str_raises:
  "thread_of w (length calls) code t = Ended (Raised e) (Contents out) (Contents err) \<Longrightarrow>
   isinstance_Exception e \<Longrightarrow> exn_bool e = Inr True \<Longrightarrow> exn_str e = Inl r \<Longrightarrow>
   engine_result w code t calls =
     \<lparr>success = False, output_text = [],
      error = Some (ErrorDetails (raised_name r) (raised_str r) (raised_trace r)),
      execution_time = time_at_end w (length calls) - time_at_start w (length calls)\<rparr>"
  by (simp add: engine_defs Let_def)

text \<open>An exception whose truth value is false is taken for no exception at all.\<close>

lemma engine_falsy_exception:
  "thread_of sample_env (length ([]::call list)) code_raise_falsy (IntVal 30)
     = Ended (Raised falsy_error) (Contents []) (Contents [])
   \<and> engine_result sample_env code_raise_falsy (IntVal 30) [] =
       \<lparr>success = True, output_text = [], error = None, execution_time = 1 / 4\<rparr>"
  by (simp add: engine_defs Let_def sample_env_def falsy_error_def code_raise_falsy_def
      code_close_stdout_def)

text \<open>
  C3. The claim asks, for an exception that is not a syntax error, for the stack trace
  captured at the raise site. On \<^verbatim>\<open>print(1/0)\<close> the engine returns the type name and the
  message of the \<^verbatim>\<open>ZeroDivisionError\<close>, but its traceback entry is the text
  \<^verbatim>\<open>NoneType: None\<close>, not the stack trace of the exception.
\<close>

theorem engine_traceback_not_captured:
  "thread_of sample_env (length ([]::call list)) ''print(1/0)'' (IntVal 30)
     = Ended (Raised zero_division) (Contents []) (Contents [])
   \<and> engine_result sample_env ''print(1/0)'' (IntVal 30) [] =
       \<lparr>success = False, output_text = [],
        error = Some (ErrorDetails ''ZeroDivisionError'' ''division by zero''
                        (''NoneType: None'' @ newline)),
        execution_time = 1 / 4\<rparr>
   \<and> exn_trace zero_division \<noteq> ''NoneType: None'' @ newline"
  by (simp add: engine_defs Let_def sample_env_def zero_division_def newline_def)






section \<open>Properties of the batch handler\<close>

lemma engine_pair:
  "execute_python_code w s t calls = (engine_result w s t calls, calls @ [(s, t)])"
  by (simp add: engine_result_def execute_python_code_def Let_def)

lemma engine_calls_Nil: "engine_calls t [] = []"
  by (simp add: engine_calls_def map_filter_simps)

lemma engine_calls_Cons:
  "engine_calls t (row # rows) =
     (case row_code row of None \<Rightarrow> [] | Some s \<Rightarrow> [(s, t)]) @ engine_calls t rows"
  by (simp add: engine_calls_def map_filter_simps split: option.splits)


lemma engine_calls_timeout: "c \<in> set (engine_calls t rows) \<Longrightarrow> snd c = t"
  by (auto simp: engine_calls_def)



text \<open>One turn of the loop, in the notions above.\<close>

lemma snowflake_rows_Cons:
  "snowflake_rows w t (row # rows) res calls =
     (if well_formed_row row
      then snowflake_rows w t rows (res @ [row_entry w t calls row])
             (calls @ engine_calls t [row])
      else (row_shape_error, calls))"
proof (cases row)
  case (PList xs)
  show ?thesis
  proof (cases xs)
    case Nil
    with PList show ?thesis by simp
  next
    case (Cons i ys)
    show ?thesis
    proof (cases ys)
      case Nil
      with Cons PList show ?thesis by simp
    next
      case (Cons c zs)
      with \<open>xs = i # ys\<close> PList show ?thesis
        by (cases c)
           (simp_all add: engine_pair row_entry_def engine_calls_Cons engine_calls_Nil)
    qed
  qed
qed simp_all

lemma snowflake_rows_calls:
  "snd (snowflake_rows w t rows res calls)
     = calls @ engine_calls t (takeWhile well_formed_row rows)"
proof (induction rows arbitrary: res calls)
  case Nil
  show ?case by (simp add: engine_calls_Nil)
next
  case (Cons row rows)
  show ?case
    unfolding snowflake_rows_Cons
    by (simp add: Cons.IH engine_calls_Cons engine_calls_Nil)
qed









lemma batch_mixed_eval:
  "handle_snowflake_format sample_env batch_mixed [] =
     (Response (DataBody
        [(PInt 7, \<lparr>success = True, output_text = ''1'' @ newline, error = None,
                    execution_time = 1 / 4\<rparr>),
         (PInt 7, row_error_result),
         (PStr ''x'', \<lparr>success = True, output_text = ''2'' @ newline, error = None,
                        execution_time = 1 / 4\<rparr>)]) 200,
      [(''print(1)'', IntVal 600), (''print(2)'', IntVal 600)])"
  by (simp add: handle_snowflake_format_def batch_mixed_def engine_defs Let_def
      sample_env_def)









text \<open>
  C8. Whatever the request holds, every engine call that the batch handler makes has
  the timeout 600.
\<close>

theorem batch_fixed_timeout:
  "\<exists>new. snd (handle_snowflake_format w data calls) = calls @ new
     \<and> (\<forall>c\<in>set new. snd c = IntVal 600)"
proof (cases data)
  case (PDict kvs)
  show ?thesis
  proof (cases "case map_of kvs ''data'' of None \<Rightarrow> PList [] | Some v \<Rightarrow> v")
    case (PList rows)
    then have "snd (handle_snowflake_format w data calls)
        = calls @ engine_calls (IntVal 600) (takeWhile well_formed_row rows)"
      using PDict by (simp add: handle_snowflake_format_def snowflake_rows_calls)
    then show ?thesis
      using engine_calls_timeout by blast
  qed (simp_all add: PDict handle_snowflake_format_def)
qed (simp_all add: handle_snowflake_format_def)

theorem batch_fixed_timeout_witness:
  "snd (handle_snowflake_format sample_env batch_mixed [])
     = [(''print(1)'', IntVal 600), (''print(2)'', IntVal 600)]
   \<and> list_all (\<lambda>c. snd c = IntVal 600) (snd (handle_snowflake_format sample_env batch_mixed []))"
  using batch_fixed_timeout [of sample_env batch_mixed "[]"]
  by (simp add: batch_mixed_eval)

section \<open>Properties of the route and of the single-code handler\<close>

lemma execute_code_has_data:
  "map_of kvs ''data'' = Some d \<Longrightarrow>
   execute_code w (PDict kvs) calls = handle_snowflake_format w (PDict kvs) calls"
proof -
  assume a: "map_of kvs ''data'' = Some d"
  then have "(''data'', d) \<in> set kvs"
    by (rule map_of_SomeD)
  then have "''data'' \<in> fst ` set kvs" and "kvs \<noteq> []"
    by force+
  then show ?thesis
    by (simp add: execute_code_def)
qed

text \<open>
  C9. A request body with both a \<^verbatim>\<open>data\<close> field and a \<^verbatim>\<open>code\<close> field is handled in
  batch mode, and the answer is the one for the body that holds the \<^verbatim>\<open>data\<close> field
  alone: the \<^verbatim>\<open>code\<close> field is ignored.
\<close>

theorem both_fields_select_batch:
  assumes "map_of kvs ''data'' = Some d"
    and "map_of kvs ''code'' = Some c"
  shows "execute_code w (PDict kvs) calls = handle_snowflake_format w (PDict kvs) calls
    \<and> handle_snowflake_format w (PDict kvs) calls
        = handle_snowflake_format w (PDict [(''data'', d)]) calls"
  using assms(1) execute_code_has_data [OF assms(1)]
  by (simp add: handle_snowflake_format_def)

theorem both_fields_select_batch_witness:
  "map_of [(''data'', PList [PList [PInt 0, PStr ''print(1)'']]), (''code'', PStr ''print(2)'')]
      ''data'' = Some (PList [PList [PInt 0, PStr ''print(1)'']])
   \<and> map_of [(''data'', PList [PList [PInt 0, PStr ''print(1)'']]), (''code'', PStr ''print(2)'')]
      ''code'' = Some (PStr ''print(2)'')
   \<and> execute_code sample_env both_fields [] =
       (Response (DataBody
          [(PInt 0, \<lparr>success = True, output_text = ''1'' @ newline, error = None,
                      execution_time = 1 / 4\<rparr>)]) 200,
        [(''print(1)'', IntVal 600)])"
  using both_fields_select_batch
    [of "[(''data'', PList [PList [PInt 0, PStr ''print(1)'']]), (''code'', PStr ''print(2)'')]"
        "PList [PList [PInt 0, PStr ''print(1)'']]" "PStr ''print(2)''" sample_env "[]"]
  by (simp add: both_fields_def handle_snowflake_format_def engine_defs Let_def sample_env_def)

text \<open>
  The timeout of a single-code request whose code is a string: 30 when the field is
  absent; an integer from 1 to 300 is passed to the engine; an integer outside that
  range, \<^verbatim>\<open>false\<close>, and any value that is neither an integer nor a boolean is refused
  with status 400 and no engine call.
\<close>

lemma legacy_timeout_default:
  "map_of kvs ''code'' = Some (PStr s) \<Longrightarrow> map_of kvs ''timeout'' = None \<Longrightarrow>
   handle_legacy_format w (PDict kvs) calls
     = (Response (ResultBody (engine_result w s (IntVal 30) calls)) 200,
        calls @ [(s, IntVal 30)])"
  by (simp add: handle_legacy_format_def engine_pair)

lemma legacy_timeout_in_range:
  "map_of kvs ''code'' = Some (PStr s) \<Longrightarrow> map_of kvs ''timeout'' = Some (PInt n) \<Longrightarrow>
   1 \<le> n \<Longrightarrow> n \<le> 300 \<Longrightarrow>
   handle_legacy_format w (PDict kvs) calls
     = (Response (ResultBody (engine_result w s (IntVal n) calls)) 200,
        calls @ [(s, IntVal n)])"
  by (simp add: handle_legacy_format_def engine_pair)

lemma legacy_timeout_rejected:
  "map_of kvs ''code'' = Some (PStr s) \<Longrightarrow> map_of kvs ''timeout'' = Some v \<Longrightarrow>
   (case v of PInt n \<Rightarrow> n < 1 \<or> 300 < n | PBool b \<Rightarrow> b = False | _ \<Rightarrow> True) \<Longrightarrow>
   handle_legacy_format w (PDict kvs) calls = (timeout_error, calls)"
  by (cases v) (auto simp: handle_legacy_format_def timeout_error_def)

text \<open>
  C5. The claim asks for a 400, with no engine call, when the timeout is not an integer.
  On \<^verbatim>\<open>{"code": "print(1)", "timeout": true}\<close> the handler accepts the boolean, calls the
  engine with the timeout \<^verbatim>\<open>True\<close> and answers with status 200.
\<close>

theorem legacy_timeout_true_accepted:
  "handle_legacy_format sample_env single_timeout_true [] =
     (Response (ResultBody \<lparr>success = True, output_text = ''1'' @ newline, error = None,
                            execution_time = 1 / 4\<rparr>) 200,
      [(''print(1)'', BoolVal True)])
   \<and> execute_code sample_env single_timeout_true []
       = handle_legacy_format sample_env single_timeout_true []"
  by (simp add: handle_legacy_format_def execute_code_def single_timeout_true_def engine_defs
      Let_def sample_env_def)

end
